theory Spec2Isabelle
  imports Main "HOL-Library.Sublist"
begin

section \<open>The library catalogue of library\_management.py\<close>

text \<open>
  The program keeps a list of books and a counter for the next identifier in one
  \<open>Library\<close> object, and stores the list as a JSON array in a file. Each method of the
  source is a function here that takes the state and returns the new one, together with
  what the method printed; an exception is a value, and a \<open>try\<close> block with its handlers
  is a function for the block and a case distinction on its result.

  Types follow the annotations of the source: \<open>book_id\<close> and \<open>year\<close> are Python
  \<open>int\<close>s (unbounded, so \<open>int\<close>), \<open>title\<close>, \<open>author\<close> and \<open>status\<close> are Python
  \<open>str\<close>s. A \<open>str\<close> is held as the list of the bytes of its UTF-8 encoding: the source
  only compares strings and looks for one inside another, and on encodings of texts both
  give the same answer as on the code points. A \<open>str\<close> that has no UTF-8 encoding (one
  with an unpaired surrogate) is outside the model, and so is the limit that the
  interpreter puts on the number of digits when it converts an \<open>int\<close> to text.
\<close>

subsection \<open>Book\<close>

record Book =
  book_id :: int
  title :: string
  author :: string
  year :: int
  status :: string

text \<open>
  The default of the parameter \<open>status\<close> of \<open>Book.__init__\<close>, a Russian phrase of nine
  letters and spaces (``in stock''), as the seventeen bytes of its UTF-8 encoding.
\<close>

definition default_status :: string where
  "default_status =
     [CHR 0xD0, CHR 0xB2, CHR 0x20, CHR 0xD0, CHR 0xBD, CHR 0xD0, CHR 0xB0, CHR 0xD0, CHR 0xBB,
      CHR 0xD0, CHR 0xB8, CHR 0xD1, CHR 0x87, CHR 0xD0, CHR 0xB8, CHR 0xD0, CHR 0xB8]"

subsection \<open>JSON values\<close>

text \<open>
  What \<open>json.load\<close> returns and \<open>json.dump\<close> takes: \<open>None\<close>, a \<open>bool\<close>, an \<open>int\<close>,
  a \<open>float\<close> (kept as the text of its literal, the source never computes with one),
  a \<open>str\<close>, a \<open>list\<close> or a \<open>dict\<close> with string keys. A dict is an association list
  read with \<open>map_of\<close>; its order is the insertion order of the dict.
\<close>

datatype json =
    JNull
  | JBool bool
  | JInt int
  | JFloat string
  | JString string
  | JArray "json list"
  | JObject "(string \<times> json) list"

text \<open>\<open>Book.to_dict\<close>: the five fields under their keys, in the order of the source.\<close>

definition to_dict :: "Book \<Rightarrow> json" where
  "to_dict book = JObject
     [(''book_id'', JInt (book_id book)),
      (''title'', JString (title book)),
      (''author'', JString (author book)),
      (''year'', JInt (year book)),
      (''status'', JString (status book))]"

subsection \<open>Python's exceptions and built-ins\<close>

text \<open>The exceptions that the methods of \<open>Library\<close> raise or meet.\<close>

datatype exn =
    ValueError          \<comment> \<open>raised by the source when no book has the id; \<open>max\<close> of nothing\<close>
  | FileNotFoundError   \<comment> \<open>\<open>open\<close> of a path without a file\<close>
  | UnicodeDecodeError  \<comment> \<open>reading, as UTF-8 text, a file whose bytes are not UTF-8\<close>
  | JSONDecodeError     \<comment> \<open>\<open>json.load\<close> on a text that is not JSON\<close>
  | KeyError string     \<comment> \<open>\<open>data[k]\<close> on a dict without the key \<open>k\<close>\<close>
  | TypeError           \<comment> \<open>iterating or subscripting a value that does not support it\<close>
  | AttributeError      \<comment> \<open>\<open>data.get\<close> on a value that is not a dict\<close>

text \<open>
  \<open>str(n)\<close> for an \<open>int\<close>: the decimal digits, most significant first, after a minus
  sign when \<open>n\<close> is negative.
\<close>

definition digit_char :: "nat \<Rightarrow> char" where
  "digit_char d = ''0123456789'' ! d"

fun str_nat :: "nat \<Rightarrow> string" where
  "str_nat n = (if n < 10 then [digit_char n] else str_nat (n div 10) @ [digit_char (n mod 10)])"

declare str_nat.simps [simp del]

definition str_int :: "int \<Rightarrow> string" where
  "str_int i = (if i < 0 then CHR ''-'' # str_nat (nat (- i)) else str_nat (nat i))"

text \<open>
  The number that a string of decimal digits denotes. The program does not call it; it
  says below what \<open>str_nat\<close> returns.
\<close>

definition decimal_value :: "string \<Rightarrow> nat" where
  "decimal_value s = foldl (\<lambda>n c. 10 * n + (of_char c - 48)) 0 s"

text \<open>
  \<open>a in b\<close> for two \<open>str\<close>: \<open>a\<close> occurs in \<open>b\<close> as a contiguous run. The scan tries
  every start position from the left.
\<close>

fun py_in :: "string \<Rightarrow> string \<Rightarrow> bool" where
  "py_in a [] = (a = [])"
| "py_in a (c # cs) = (prefix a (c # cs) \<or> py_in a cs)"

text \<open>
  \<open>max\<close> of an iterable of \<open>int\<close>: the first element, replaced by every later one
  that is greater; \<open>ValueError\<close> when there is no element.
\<close>

fun py_max :: "int list \<Rightarrow> exn + int" where
  "py_max [] = Inl ValueError"
| "py_max (x # xs) = Inr (foldl max x xs)"

text \<open>
  \<open>for data in v\<close>: a list yields its elements, a dict its keys, a string its
  characters, each a string of its own (one per byte here; the comprehension below fails
  on the first of them either way); any other value is not iterable.
\<close>

fun py_iter :: "json \<Rightarrow> exn + json list" where
  "py_iter (JArray xs) = Inr xs"
| "py_iter (JObject kvs) = Inr (map JString (remdups (map fst kvs)))"
| "py_iter (JString s) = Inr (map (\<lambda>c. JString [c]) s)"
| "py_iter v = Inl TypeError"

text \<open>
  \<open>data[k]\<close> with a string \<open>k\<close>: a dict gives the value or raises \<open>KeyError\<close>; a list
  and a string take integer indices only, the other values no subscript at all.
\<close>

fun py_getitem :: "json \<Rightarrow> string \<Rightarrow> exn + json" where
  "py_getitem (JObject kvs) k =
     (case map_of kvs k of Some v \<Rightarrow> Inr v | None \<Rightarrow> Inl (KeyError k))"
| "py_getitem v k = Inl TypeError"

text \<open>
  \<open>data.get(k, d)\<close>: the value under \<open>k\<close>, or \<open>d\<close> when the dict has no such key.
  The other values have no method \<open>get\<close>.
\<close>

fun py_get :: "json \<Rightarrow> string \<Rightarrow> json \<Rightarrow> exn + json" where
  "py_get (JObject kvs) k d = (case map_of kvs k of Some v \<Rightarrow> Inr v | None \<Rightarrow> Inr d)"
| "py_get v k d = Inl AttributeError"

subsection \<open>Library\<close>

record Library =
  books :: "Book list"
  next_id :: int

text \<open>
  What the methods print: one constructor for each \<open>print\<close> call of the class. The two
  error lines of \<open>remove_book\<close> and \<open>change_status\<close> end with the text of the exception
  that was caught.
\<close>

datatype message =
    Remove_error exn  \<comment> \<open>\<open>remove_book\<close>: error while removing the book, and the exception\<close>
  | Status_error exn  \<comment> \<open>\<open>change_status\<close>: error while changing the status, and the exception\<close>
  | Library_empty     \<comment> \<open>\<open>load_from_file\<close>: the library is empty, starting with an empty one\<close>
  | File_not_found    \<comment> \<open>\<open>load_from_file\<close>: the file was not found\<close>
  | Format_error      \<comment> \<open>\<open>load_from_file\<close>: error reading the file, check the format\<close>

text \<open>\<open>Library.__init__\<close>\<close>

definition Library_init :: Library where
  "Library_init = \<lparr>books = [], next_id = 1\<rparr>"

text \<open>\<open>Library.add_book\<close>: the new book takes \<open>next_id\<close> and the default status.\<close>

definition add_book :: "string \<Rightarrow> string \<Rightarrow> int \<Rightarrow> Library \<Rightarrow> Library" where
  "add_book t a y lib =
     (let book = \<lparr>book_id = next_id lib, title = t, author = a, year = y,
                  status = default_status\<rparr>
      in lib\<lparr>books := books lib @ [book], next_id := next_id lib + 1\<rparr>)"

text \<open>
  \<open>Library.remove_book\<close>. The \<open>try\<close> block raises \<open>ValueError\<close> when the list is empty
  or no book has the id, and otherwise keeps the books with another id. The handler
  \<open>except Exception\<close> catches whatever the block raises and prints it, so the method
  always returns.
\<close>

definition remove_book_try :: "int \<Rightarrow> Library \<Rightarrow> exn + Library" where
  "remove_book_try bid lib =
     (if length (books lib) = 0 \<or> \<not> list_ex (\<lambda>book. book_id book = bid) (books lib)
      then Inl ValueError
      else Inr (lib\<lparr>books := filter (\<lambda>book. book_id book \<noteq> bid) (books lib)\<rparr>))"

definition remove_book :: "int \<Rightarrow> Library \<Rightarrow> Library \<times> message list" where
  "remove_book bid lib =
     (case remove_book_try bid lib of
        Inl e \<Rightarrow> (lib, [Remove_error e])
      | Inr lib' \<Rightarrow> (lib', []))"

text \<open>\<open>Library.search_books\<close>\<close>

definition search_books :: "string \<Rightarrow> Library \<Rightarrow> Book list" where
  "search_books search_term lib =
     filter (\<lambda>book. py_in search_term (title book) \<or>
                    py_in search_term (author book) \<or>
                    search_term = str_int (year book)) (books lib)"

text \<open>
  \<open>Library.change_status\<close>. The \<open>for\<close> loop writes the status of the first book with
  the id and returns; \<open>None\<close> is the loop running off the end of the list, after which the
  \<open>try\<close> block raises \<open>ValueError\<close>. The handler is that of \<open>remove_book\<close>.
\<close>

fun change_status_loop :: "int \<Rightarrow> string \<Rightarrow> Book list \<Rightarrow> Book list option" where
  "change_status_loop bid new_status [] = None"
| "change_status_loop bid new_status (book # rest) =
     (if book_id book = bid then Some (book\<lparr>status := new_status\<rparr> # rest)
      else map_option ((#) book) (change_status_loop bid new_status rest))"

definition change_status_try :: "int \<Rightarrow> string \<Rightarrow> Library \<Rightarrow> exn + Library" where
  "change_status_try bid new_status lib =
     (case change_status_loop bid new_status (books lib) of
        Some bs \<Rightarrow> Inr (lib\<lparr>books := bs\<rparr>)
      | None \<Rightarrow> Inl ValueError)"

definition change_status :: "int \<Rightarrow> string \<Rightarrow> Library \<Rightarrow> Library \<times> message list" where
  "change_status bid new_status lib =
     (case change_status_try bid new_status lib of
        Inl e \<Rightarrow> (lib, [Status_error e])
      | Inr lib' \<Rightarrow> (lib', []))"

subsection \<open>Files\<close>

text \<open>
  The file system maps a path to what a regular file at it holds. The source opens the
  file with \<open>open(filename, 'r', encoding='utf-8')\<close> and hands it to \<open>json.load\<close>, which
  reads all of it and parses the text. The reader and the parser are Python's library, not
  code of this program, so a file is held by what they make of it:
  \<^item> \<open>Zero_length\<close>: the file has size 0;
  \<^item> \<open>Not_utf8\<close>: a file of positive size whose bytes are not UTF-8 text;
  \<^item> \<open>Malformed\<close>: a file of positive size whose text is not JSON;
  \<^item> \<open>Json_text v\<close>: a file of positive size whose text is JSON for the value \<open>v\<close>.
  \<open>json.dump(v, f, ...)\<close> writes a text that \<open>json.load\<close> reads back as \<open>v\<close>, for the
  values this program writes (lists of dicts of ints and strings); that property of the
  library is taken as given. Directories and missing permissions are not modelled.
\<close>

datatype file_content = Zero_length | Not_utf8 | Malformed | Json_text json

type_synonym filesystem = "string \<Rightarrow> file_content option"

definition path_exists :: "filesystem \<Rightarrow> string \<Rightarrow> bool" where
  "path_exists fs filename = (fs filename \<noteq> None)"

definition py_open :: "filesystem \<Rightarrow> string \<Rightarrow> exn + file_content" where
  "py_open fs filename =
     (case fs filename of None \<Rightarrow> Inl FileNotFoundError | Some f \<Rightarrow> Inr f)"

text \<open>\<open>os.stat(filename).st_size == 0\<close>\<close>

fun st_size_is_0 :: "file_content \<Rightarrow> bool" where
  "st_size_is_0 Zero_length = True"
| "st_size_is_0 Not_utf8 = False"
| "st_size_is_0 Malformed = False"
| "st_size_is_0 (Json_text v) = False"

text \<open>
  \<open>json.load(f)\<close>: \<open>f.read()\<close> decodes the bytes, then the text is parsed. The empty
  text is not JSON either.
\<close>

fun json_load :: "file_content \<Rightarrow> exn + json" where
  "json_load Zero_length = Inl JSONDecodeError"
| "json_load Not_utf8 = Inl UnicodeDecodeError"
| "json_load Malformed = Inl JSONDecodeError"
| "json_load (Json_text v) = Inr v"

text \<open>\<open>Library.save_to_file\<close>: mode \<open>'w'\<close> creates the file or replaces what it held.\<close>

definition save_to_file :: "string \<Rightarrow> Library \<Rightarrow> filesystem \<Rightarrow> filesystem" where
  "save_to_file filename lib fs = fs(filename \<mapsto> Json_text (JArray (map to_dict (books lib))))"

text \<open>
  The arguments of one \<open>Book(...)\<close> call of the comprehension, evaluated left to right:
  the first failing lookup raises. The values are kept as they come; \<open>Book.__init__\<close>
  checks nothing.
\<close>

definition book_args :: "json \<Rightarrow> exn + (json \<times> json \<times> json \<times> json \<times> json)" where
  "book_args data =
     (case py_getitem data ''book_id'' of Inl e \<Rightarrow> Inl e | Inr i \<Rightarrow>
     (case py_getitem data ''title'' of Inl e \<Rightarrow> Inl e | Inr t \<Rightarrow>
     (case py_getitem data ''author'' of Inl e \<Rightarrow> Inl e | Inr a \<Rightarrow>
     (case py_getitem data ''year'' of Inl e \<Rightarrow> Inl e | Inr y \<Rightarrow>
     (case py_get data ''status'' (JString default_status) of Inl e \<Rightarrow> Inl e | Inr s \<Rightarrow>
        Inr (i, t, a, y, s))))))"

text \<open>The list comprehension: element by element, stopping at the first exception.\<close>

fun comprehension :: "json list \<Rightarrow> exn + (json \<times> json \<times> json \<times> json \<times> json) list" where
  "comprehension [] = Inr []"
| "comprehension (data # rest) =
     (case book_args data of Inl e \<Rightarrow> Inl e | Inr b \<Rightarrow>
     (case comprehension rest of Inl e \<Rightarrow> Inl e | Inr bs \<Rightarrow> Inr (b # bs)))"

text \<open>
  The step from the loaded values to the typed record: a book whose five values have the
  types of the annotations. \<open>None\<close> marks a value of another type (a string as id,
  \<open>null\<close> as title, a boolean as year); the source builds a \<open>Book\<close> from it all the same,
  and the typed \<open>Book\<close> of this theory cannot hold it.
\<close>

fun typed_book :: "json \<times> json \<times> json \<times> json \<times> json \<Rightarrow> Book option" where
  "typed_book (JInt i, JString t, JString a, JInt y, JString s) =
     Some \<lparr>book_id = i, title = t, author = a, year = y, status = s\<rparr>"
| "typed_book other = None"

fun typed_books :: "(json \<times> json \<times> json \<times> json \<times> json) list \<Rightarrow> Book list option" where
  "typed_books [] = Some []"
| "typed_books (b # bs) =
     (case typed_book b of None \<Rightarrow> None | Some book \<Rightarrow>
     (case typed_books bs of None \<Rightarrow> None | Some typed \<Rightarrow> Some (book # typed)))"

text \<open>
  How a block or a method ends: it returns after printing some lines, or it raises; in
  both cases the state of the library at that moment is part of the result. \<open>Untyped\<close> is
  the limit of the model: the file gave a book a value whose type is not the annotated
  one, and nothing is said about the state.
\<close>

datatype load_result =
    Returns "message list" Library
  | Raises exn Library
  | Untyped

text \<open>
  The two assignments at the end of the \<open>with\<close> block: \<open>self.books\<close> first, then
  \<open>self.next_id\<close> from \<open>max(...) + 1 if self.books else 1\<close>.
\<close>

definition assign_loaded :: "Book list \<Rightarrow> Library \<Rightarrow> load_result" where
  "assign_loaded bs lib =
     (let lib1 = lib\<lparr>books := bs\<rparr>
      in if books lib1 \<noteq> [] then
           (case py_max (map book_id (books lib1)) of
              Inl e \<Rightarrow> Raises e lib1
            | Inr m \<Rightarrow> Returns [] (lib1\<lparr>next_id := m + 1\<rparr>))
         else Returns [] (lib1\<lparr>next_id := 1\<rparr>))"

text \<open>
  The \<open>try\<close> block of \<open>Library.load_from_file\<close>. \<open>open\<close> comes first; the test on the
  path and the size returns early with the notice; \<open>json.load\<close> is called before the
  comprehension starts, and the comprehension is evaluated in full before \<open>self.books\<close> is
  assigned.
\<close>

definition load_try :: "string \<Rightarrow> filesystem \<Rightarrow> Library \<Rightarrow> load_result" where
  "load_try filename fs lib =
     (case py_open fs filename of
        Inl e \<Rightarrow> Raises e lib
      | Inr f \<Rightarrow>
          if \<not> path_exists fs filename \<or> st_size_is_0 f then Returns [Library_empty] lib
          else
            (case json_load f of Inl e \<Rightarrow> Raises e lib | Inr v \<Rightarrow>
            (case py_iter v of Inl e \<Rightarrow> Raises e lib | Inr items \<Rightarrow>
            (case comprehension items of Inl e \<Rightarrow> Raises e lib | Inr args \<Rightarrow>
            (case typed_books args of None \<Rightarrow> Untyped | Some bs \<Rightarrow>
               assign_loaded bs lib)))))"

text \<open>
  \<open>Library.load_from_file\<close>: the block with its two handlers, \<open>except FileNotFoundError\<close>
  and \<open>except json.JSONDecodeError\<close>. Each prints its line and the method returns; any
  other exception leaves the method.
\<close>

definition load_from_file :: "string \<Rightarrow> filesystem \<Rightarrow> Library \<Rightarrow> load_result" where
  "load_from_file filename fs lib =
     (case load_try filename fs lib of
        Raises FileNotFoundError lib' \<Rightarrow> Returns [File_not_found] lib'
      | Raises JSONDecodeError lib' \<Rightarrow> Returns [Format_error] lib'
      | r \<Rightarrow> r)"

subsection \<open>Sequences of calls\<close>

text \<open>
  A caller that adds and removes books in any order. \<open>assigned_ids\<close> replays the calls
  and collects, for every \<open>add_book\<close>, the id of the book that the call appended.
\<close>

datatype call = Add string string int | Remove int

fun assigned_ids :: "call list \<Rightarrow> Library \<Rightarrow> int list" where
  "assigned_ids [] lib = []"
| "assigned_ids (Add t a y # calls) lib =
     (let lib' = add_book t a y lib
      in book_id (last (books lib')) # assigned_ids calls lib')"
| "assigned_ids (Remove bid # calls) lib = assigned_ids calls (fst (remove_book bid lib))"

subsection \<open>Example data\<close>

text \<open>A library of three books with distinct ids, the book with id 2 removed earlier.\<close>

definition shelf :: Library where
  "shelf =
     \<lparr>books =
        [\<lparr>book_id = 1, title = ''Dune'', author = ''Herbert'', year = 1965, status = ''lent''\<rparr>,
         \<lparr>book_id = 3, title = ''Emma'', author = ''Austen'', year = 1815, status = ''here''\<rparr>,
         \<lparr>book_id = 4, title = ''Ulysses'', author = ''Joyce'', year = 1922, status = ''here''\<rparr>],
      next_id = 5\<rparr>"

text \<open>
  The items of a JSON array whose second object has no \<open>author\<close> and no \<open>year\<close>; the
  first is complete (\<open>status\<close> is optional).
\<close>

definition incomplete_items :: "json list" where
  "incomplete_items =
     [JObject [(''book_id'', JInt 1), (''title'', JString ''Dune''),
               (''author'', JString ''Herbert''), (''year'', JInt 1965)],
      JObject [(''book_id'', JInt 2), (''title'', JString ''Emma'')]]"

text \<open>Two books under one id, as a file written by hand can hold them.\<close>

definition twin1 :: Book where
  "twin1 = \<lparr>book_id = 7, title = ''Emma'', author = ''Austen'', year = 1815, status = ''here''\<rparr>"

definition twin2 :: Book where
  "twin2 = \<lparr>book_id = 7, title = ''Persuasion'', author = ''Austen'', year = 1817,
            status = ''lent''\<rparr>"

definition twins :: Library where
  "twins = \<lparr>books = [twin1, twin2], next_id = 8\<rparr>"

section \<open>Properties\<close>

subsection \<open>Built-ins\<close>




lemma digit_char_code: "d < 10 \<Longrightarrow> of_char (digit_char d) = 48 + d"
proof -
  assume "d < 10"
  then have "d \<in> {0, 1, 2, 3, 4, 5, 6, 7, 8, 9}"
    by auto
  then show ?thesis
    by (auto simp: digit_char_def)
qed

text \<open>\<open>str_nat\<close> writes the number in decimal: reading the digits gives it back.\<close>

lemma decimal_value_snoc:
  "decimal_value (s @ [c]) = 10 * decimal_value s + (of_char c - 48)"
  by (simp add: decimal_value_def)

lemma decimal_value_str_nat: "decimal_value (str_nat n) = n"
proof (induction n rule: str_nat.induct)
  case (1 n)
  show ?case
  proof (cases "n < 10")
    case True
    then show ?thesis
      by (subst str_nat.simps) (simp add: decimal_value_def digit_char_code)
  next
    case False
    with 1 show ?thesis
      by (subst str_nat.simps) (simp add: decimal_value_snoc digit_char_code)
  qed
qed

lemma str_int_examples:
  "str_int 0 = ''0''" "str_int 7 = ''7''" "str_int 2001 = ''2001''" "str_int (- 120) = ''-120''"
  by (simp_all add: str_int_def str_nat.simps digit_char_def)

text \<open>
  The result of \<open>str\<close> is made of digits after an optional minus sign, and two
  different numbers never get the same text: a search term can equal the text of one
  year only.
\<close>

lemma digit_char_digit: "d < 10 \<Longrightarrow> digit_char d \<in> set ''0123456789''"
proof -
  assume "d < 10"
  then have "d \<in> {0, 1, 2, 3, 4, 5, 6, 7, 8, 9}"
    by auto
  then show ?thesis
    by (auto simp: digit_char_def)
qed

lemma str_nat_digits: "set (str_nat n) \<subseteq> set ''0123456789''"
proof (induction n rule: str_nat.induct)
  case (1 n)
  show ?case
  proof (cases "n < 10")
    case True
    with digit_char_digit [of n] show ?thesis
      by (subst str_nat.simps) simp
  next
    case False
    with 1 digit_char_digit [of "n mod 10"] show ?thesis
      by (subst str_nat.simps) simp
  qed
qed

lemma str_nat_not_empty: "str_nat n \<noteq> []"
  by (subst str_nat.simps) simp

lemma str_nat_inject: "str_nat m = str_nat n \<longleftrightarrow> m = n"
  by (metis decimal_value_str_nat)

lemma str_nat_no_minus: "str_nat n \<noteq> CHR ''-'' # s"
proof
  assume "str_nat n = CHR ''-'' # s"
  then have "CHR ''-'' \<in> set (str_nat n)"
    by simp
  with str_nat_digits [of n] show False
    by auto
qed

lemma str_int_inject: "str_int i = str_int j \<longleftrightarrow> i = j"
proof
  assume eq: "str_int i = str_int j"
  show "i = j"
  proof (cases "i < 0")
    case True
    show ?thesis
    proof (cases "j < 0")
      case jneg: True
      with True eq have "nat (- i) = nat (- j)"
        by (simp add: str_int_def str_nat_inject)
      with True jneg show ?thesis by simp
    next
      case False
      with True eq str_nat_no_minus [of "nat j" "str_nat (nat (- i))"] show ?thesis
        by (simp add: str_int_def)
    qed
  next
    case False
    show ?thesis
    proof (cases "j < 0")
      case True
      with False eq str_nat_no_minus [of "nat i" "str_nat (nat (- j))"] show ?thesis
        by (simp add: str_int_def)
    next
      case jpos: False
      with False eq have "nat i = nat j"
        by (simp add: str_int_def str_nat_inject)
      with False jpos show ?thesis by simp
    qed
  qed
next
  assume "i = j"
  then show "str_int i = str_int j" by simp
qed

lemma py_max_Max: "xs \<noteq> [] \<Longrightarrow> py_max xs = Inr (Max (set xs))"
proof (cases xs)
  case Nil
  assume "xs \<noteq> []"
  with Nil show ?thesis by simp
next
  case (Cons x ys)
  have "foldl max x ys = fold max ys x"
    by (simp add: foldl_conv_fold max.commute)
  with Cons Max.set_eq_fold [of x ys] show ?thesis
    by simp
qed

subsection \<open>The handlers of \<open>load_from_file\<close>\<close>

text \<open>
  The comprehension raises \<open>TypeError\<close> or a \<open>KeyError\<close> only, so neither handler
  catches what it raises.
\<close>

lemma book_args_error:
  "book_args data = Inl e \<Longrightarrow>
   e = TypeError \<or> e \<in> KeyError ` {''book_id'', ''title'', ''author'', ''year''}"
  by (cases data) (auto simp: book_args_def split: option.splits)

lemma comprehension_error:
  "comprehension items = Inl e \<Longrightarrow>
   e = TypeError \<or> e \<in> KeyError ` {''book_id'', ''title'', ''author'', ''year''}"
proof (induction items)
  case Nil
  then show ?case by simp
next
  case (Cons data items)
  show ?case
  proof (cases "book_args data")
    case (Inl e')
    with Cons.prems have "e' = e" by simp
    with Inl show ?thesis
      using book_args_error [of data e] by simp
  next
    case (Inr args)
    with Cons.prems have "comprehension items = Inl e"
      by (simp split: sum.splits)
    with Cons.IH show ?thesis by simp
  qed
qed

lemma load_from_file_absent:
  "fs filename = None \<Longrightarrow> load_from_file filename fs lib = Returns [File_not_found] lib"
  by (simp add: load_from_file_def load_try_def py_open_def)

lemma load_from_file_zero_length:
  "fs filename = Some Zero_length \<Longrightarrow>
   load_from_file filename fs lib = Returns [Library_empty] lib"
  by (simp add: load_from_file_def load_try_def py_open_def)


lemma assign_loaded_returns: "\<exists>lib'. assign_loaded bs lib = Returns [] lib'"
  by (cases bs) (simp_all add: assign_loaded_def)

lemma load_from_file_array:
  "fs filename = Some (Json_text (JArray items)) \<Longrightarrow>
   load_from_file filename fs lib =
     (case comprehension items of
        Inl e \<Rightarrow> Raises e lib
      | Inr args \<Rightarrow>
          (case typed_books args of None \<Rightarrow> Untyped | Some bs \<Rightarrow> assign_loaded bs lib))"
proof (cases "comprehension items")
  case (Inl e)
  assume "fs filename = Some (Json_text (JArray items))"
  with Inl comprehension_error [OF Inl] show ?thesis
    by (auto simp: load_from_file_def load_try_def py_open_def path_exists_def)
next
  case (Inr args)
  assume held: "fs filename = Some (Json_text (JArray items))"
  show ?thesis
  proof (cases "typed_books args")
    case None
    with Inr held show ?thesis
      by (simp add: load_from_file_def load_try_def py_open_def path_exists_def)
  next
    case (Some bs)
    obtain lib' where "assign_loaded bs lib = Returns [] lib'"
      using assign_loaded_returns by blast
    with Some Inr held show ?thesis
      by (simp add: load_from_file_def load_try_def py_open_def path_exists_def)
  qed
qed

subsection \<open>Reading back what \<open>to_dict\<close> wrote\<close>

lemma book_args_to_dict:
  "book_args (to_dict b) =
     Inr (JInt (book_id b), JString (title b), JString (author b), JInt (year b),
          JString (status b))"
  by (simp add: book_args_def to_dict_def)

lemma typed_book_to_dict:
  "typed_book (JInt (book_id b), JString (title b), JString (author b), JInt (year b),
               JString (status b)) = Some b"
  by simp

lemma comprehension_to_dict:
  "\<exists>args. comprehension (map to_dict bs) = Inr args \<and> typed_books args = Some bs"
proof (induction bs)
  case Nil
  show ?case by simp
next
  case (Cons b bs)
  then obtain args where "comprehension (map to_dict bs) = Inr args" "typed_books args = Some bs"
    by blast
  then show ?case
    by (simp add: book_args_to_dict)
qed

lemma load_written:
  assumes "fs filename = Some (Json_text (JArray (map to_dict bs)))"
  shows "load_from_file filename fs lib =
           Returns [] \<lparr>books = bs,
                       next_id = (if bs = [] then 1 else Max (set (map book_id bs)) + 1)\<rparr>"
proof -
  obtain args where args: "comprehension (map to_dict bs) = Inr args" "typed_books args = Some bs"
    using comprehension_to_dict by blast
  show ?thesis
  proof (cases "bs = []")
    case True
    with assms args show ?thesis
      by (simp add: load_from_file_array assign_loaded_def)
  next
    case False
    then have "py_max (map book_id bs) = Inr (Max (set (map book_id bs)))"
      by (simp add: py_max_Max)
    with False assms args show ?thesis
      by (simp add: load_from_file_array assign_loaded_def)
  qed
qed

subsection \<open>Identifiers\<close>

lemma remove_book_next_id: "next_id (fst (remove_book bid lib)) = next_id lib"
  by (simp add: remove_book_def remove_book_try_def)

lemma add_book_last: "book_id (last (books (add_book t a y lib))) = next_id lib"
  by (simp add: add_book_def)

lemma add_book_next_id: "next_id (add_book t a y lib) = next_id lib + 1"
  by (simp add: add_book_def)

text \<open>Every id handed out from a state on is at least the counter of that state.\<close>

lemma assigned_ids_from:
  "sorted_wrt (<) (assigned_ids calls lib) \<and> (\<forall>i \<in> set (assigned_ids calls lib). next_id lib \<le> i)"
proof (induction calls arbitrary: lib)
  case Nil
  show ?case by simp
next
  case (Cons c calls)
  show ?case
  proof (cases c)
    case (Add t a y)
    from Cons.IH [of "add_book t a y lib"] Add show ?thesis
      by (auto simp: Let_def add_book_last add_book_next_id)
  next
    case (Remove bid)
    from Cons.IH [of "fst (remove_book bid lib)"] Remove show ?thesis
      by (simp add: remove_book_next_id)
  qed
qed

text \<open>Three additions with removals in between, one of them of an id never given.\<close>

lemma assigned_ids_example:
  "assigned_ids [Add ''A'' ''X'' 2000, Remove 1, Add ''B'' ''Y'' 2001, Remove 7, Add ''C'' ''Z'' 2002]
     Library_init = [1, 2, 3]"
  by (simp add: add_book_def remove_book_def remove_book_try_def Library_init_def)

subsection \<open>Removing and updating\<close>

lemma remove_book_found:
  "\<exists>book \<in> set (books lib). book_id book = bid \<Longrightarrow>
   remove_book bid lib = (lib\<lparr>books := filter (\<lambda>book. book_id book \<noteq> bid) (books lib)\<rparr>, [])"
  by (auto simp: remove_book_def remove_book_try_def list_ex_iff)

lemma remove_book_missing:
  "\<forall>book \<in> set (books lib). book_id book \<noteq> bid \<Longrightarrow>
   remove_book bid lib = (lib, [Remove_error ValueError])"
  by (auto simp: remove_book_def remove_book_try_def list_ex_iff)

lemma remove_book_twice:
  "remove_book bid (fst (remove_book bid lib)) = (fst (remove_book bid lib), [Remove_error ValueError])"
proof (cases "\<exists>book \<in> set (books lib). book_id book = bid")
  case True
  then show ?thesis
    by (simp add: remove_book_found remove_book_missing)
next
  case False
  then show ?thesis
    by (simp add: remove_book_missing)
qed

text \<open>With distinct ids, dropping the books with one id takes out a single element.\<close>

lemma filter_distinct_id:
  assumes "distinct (map book_id (pre @ book # suf))"
  shows "filter (\<lambda>b. book_id b \<noteq> book_id book) (pre @ book # suf) = pre @ suf"
proof -
  from assms have "book_id book \<notin> book_id ` (set pre \<union> set suf)"
    by auto
  then have "\<forall>b \<in> set pre \<union> set suf. book_id b \<noteq> book_id book"
    by (metis imageI)
  then show ?thesis
    by (simp add: filter_id_conv)
qed

lemma change_status_loop_found:
  "\<exists>book \<in> set bs. book_id book = bid \<Longrightarrow>
   \<exists>pre book suf. bs = pre @ book # suf \<and> book_id book = bid \<and>
     (\<forall>other \<in> set pre. book_id other \<noteq> bid) \<and>
     change_status_loop bid new_status bs = Some (pre @ book\<lparr>status := new_status\<rparr> # suf)"
proof (induction bs)
  case Nil
  then show ?case by simp
next
  case (Cons b bs)
  show ?case
  proof (cases "book_id b = bid")
    case True
    then have "b # bs = [] @ b # bs \<and> book_id b = bid \<and>
        (\<forall>other \<in> set []. book_id other \<noteq> bid) \<and>
        change_status_loop bid new_status (b # bs) = Some ([] @ b\<lparr>status := new_status\<rparr> # bs)"
      by simp
    then show ?thesis by blast
  next
    case False
    with Cons.prems have "\<exists>book \<in> set bs. book_id book = bid"
      by auto
    from Cons.IH [OF this] obtain pre book suf where
      split: "bs = pre @ book # suf" "book_id book = bid"
        "\<forall>other \<in> set pre. book_id other \<noteq> bid"
        "change_status_loop bid new_status bs = Some (pre @ book\<lparr>status := new_status\<rparr> # suf)"
      by blast
    with False have "b # bs = (b # pre) @ book # suf \<and> book_id book = bid \<and>
        (\<forall>other \<in> set (b # pre). book_id other \<noteq> bid) \<and>
        change_status_loop bid new_status (b # bs) =
          Some ((b # pre) @ book\<lparr>status := new_status\<rparr> # suf)"
      by simp
    then show ?thesis by blast
  qed
qed

lemma change_status_loop_missing:
  "\<forall>book \<in> set bs. book_id book \<noteq> bid \<Longrightarrow> change_status_loop bid new_status bs = None"
  by (induction bs) simp_all

lemma change_status_missing:
  "\<forall>book \<in> set (books lib). book_id book \<noteq> bid \<Longrightarrow>
   change_status bid new_status lib = (lib, [Status_error ValueError])"
  by (simp add: change_status_def change_status_try_def change_status_loop_missing)

text \<open>Of two books under one id, only the first gets the new status.\<close>

lemma change_status_twins:
  "change_status 7 ''gone'' twins = (twins\<lparr>books := [twin1\<lparr>status := ''gone''\<rparr>, twin2]\<rparr>, [])"
  by (simp add: change_status_def change_status_try_def twins_def twin1_def twin2_def)

lemma removed_count:
  "length (filter (\<lambda>book. book_id book \<noteq> bid) bs) + count_list (map book_id bs) bid = length bs"
  by (induction bs) simp_all

lemma count_list_distinct: "distinct xs \<Longrightarrow> x \<in> set xs \<Longrightarrow> count_list xs x = 1"
  by (induction xs) auto

lemma distinct_count_list: "(\<forall>x \<in> set xs. count_list xs x = 1) \<Longrightarrow> distinct xs"
proof (induction xs)
  case Nil
  show ?case by simp
next
  case (Cons a xs)
  from Cons.prems have "count_list (a # xs) a = 1"
    by simp
  then have fresh: "a \<notin> set xs"
    by (simp add: count_list_0_iff)
  have "\<forall>x \<in> set xs. count_list xs x = 1"
  proof
    fix x
    assume x: "x \<in> set xs"
    with fresh have "x \<noteq> a" by auto
    with x Cons.prems show "count_list xs x = 1" by auto
  qed
  with Cons.IH fresh show ?case by simp
qed

text \<open>
  Searching compares characters as they are and takes the year as a whole: on \<open>shelf\<close>,
  \<open>19\<close> is the start of two years and finds nothing, \<open>1965\<close> finds the book of that
  year, \<open>dune\<close> does not find \<open>Dune\<close>, and \<open>e\<close> finds the three books, in their order.
\<close>

lemma search_books_examples:
  "search_books ''19'' shelf = []"
  "map book_id (search_books ''1965'' shelf) = [1]"
  "search_books ''dune'' shelf = []"
  "map book_id (search_books ''Dune'' shelf) = [1]"
  "map book_id (search_books ''e'' shelf) = [1, 3, 4]"
  by (simp_all add: search_books_def shelf_def str_int_def str_nat.simps digit_char_def)

subsection \<open>Files that do not fit\<close>

text \<open>The four keys that the comprehension reads with \<open>data[...]\<close>, in its order.\<close>

lemma book_args_object:
  "book_args (JObject kvs) = Inl e \<Longrightarrow>
   e = KeyError ''book_id'' \<or> e = KeyError ''title'' \<or> e = KeyError ''author'' \<or>
   e = KeyError ''year''"
  by (auto simp: book_args_def split: option.splits)

lemma book_args_other:
  "\<forall>kvs. data \<noteq> JObject kvs \<Longrightarrow> book_args data = Inl TypeError"
  by (cases data) (simp_all add: book_args_def)

lemma book_args_incomplete:
  assumes "k \<in> {''book_id'', ''title'', ''author'', ''year''}" and "map_of kvs k = None"
  shows "\<exists>e. book_args (JObject kvs) = Inl e"
  using assms by (auto simp: book_args_def split: option.splits)

lemma comprehension_incomplete:
  assumes "JObject kvs \<in> set items"
    and "k \<in> {''book_id'', ''title'', ''author'', ''year''}" and "map_of kvs k = None"
  shows "\<exists>e. comprehension items = Inl e"
  using assms(1)
proof (induction items)
  case Nil
  then show ?case by simp
next
  case (Cons data items)
  show ?case
  proof (cases "book_args data")
    case (Inl e)
    then show ?thesis by simp
  next
    case (Inr args)
    with book_args_incomplete [OF assms(2,3)] have "data \<noteq> JObject kvs"
      by auto
    with Cons.prems have "JObject kvs \<in> set items"
      by simp
    with Cons.IH obtain e where "comprehension items = Inl e"
      by blast
    with Inr show ?thesis by simp
  qed
qed

lemma comprehension_objects:
  assumes "\<forall>item \<in> set items. \<exists>kvs. item = JObject kvs" and "comprehension items = Inl e"
  shows "e = KeyError ''book_id'' \<or> e = KeyError ''title'' \<or> e = KeyError ''author'' \<or>
         e = KeyError ''year''"
  using assms
proof (induction items)
  case Nil
  then show ?case by simp
next
  case (Cons data items)
  from Cons.prems(1) obtain kvs where data: "data = JObject kvs"
    by auto
  show ?case
  proof (cases "book_args data")
    case (Inl e')
    with Cons.prems(2) have "e' = e" by simp
    with Inl data show ?thesis
      using book_args_object [of kvs e] by simp
  next
    case (Inr args)
    with Cons.prems(2) have "comprehension items = Inl e"
      by (simp split: sum.splits)
    with Cons.IH Cons.prems(1) show ?thesis by simp
  qed
qed

subsection \<open>Claims\<close>

text \<open>
  C1. Saving a library and loading the file into a freshly constructed library gives the
  saved books back: the same ids, titles, authors, years and statuses in the same order;
  \<open>next_id\<close> is then the greatest id plus one, or 1 when there are no books. Whatever the
  file system held before, and whatever the path.
\<close>

theorem save_load_roundtrip:
  "load_from_file filename (save_to_file filename lib fs) Library_init =
     Returns [] \<lparr>books = books lib,
                 next_id = (if books lib = [] then 1
                            else Max (set (map book_id (books lib))) + 1)\<rparr>"
proof -
  have "save_to_file filename lib fs filename =
          Some (Json_text (JArray (map to_dict (books lib))))"
    by (simp add: save_to_file_def)
  then show ?thesis
    by (rule load_written)
qed

text \<open>
  C2. From a fresh library, whatever \<open>add_book\<close> and \<open>remove_book\<close> calls follow
  one another, the ids given to the added books increase strictly in the order of the
  calls, so no two are equal; and \<open>remove_book\<close> never changes \<open>next_id\<close>, in any
  library and for any id.
\<close>

theorem assigned_ids_increasing:
  "sorted_wrt (<) (assigned_ids calls Library_init) \<and>
   distinct (assigned_ids calls Library_init) \<and>
   next_id (fst (remove_book bid lib)) = next_id lib"
proof -
  have incr: "sorted_wrt (<) (assigned_ids calls Library_init)"
    using assigned_ids_from [of calls Library_init] by simp
  then have "distinct (assigned_ids calls Library_init)"
    by (simp add: strict_sorted_iff)
  with incr show ?thesis
    by (simp add: remove_book_next_id)
qed




text \<open>
  C4, as the code has it. When there is no file at the path, or the file has size 0,
  \<open>load_from_file\<close> prints a notice (file not found in the first case, library empty in
  the second), returns without an exception, and leaves the list of books and \<open>next_id\<close>
  as they were before the call. A freshly constructed library therefore stays empty with
  \<open>next_id = 1\<close>; a library that held books still holds them.
\<close>

theorem load_absent_or_empty_keeps_state:
  "(fs filename = None \<longrightarrow> load_from_file filename fs lib = Returns [File_not_found] lib) \<and>
   (fs filename = Some Zero_length \<longrightarrow>
      load_from_file filename fs lib = Returns [Library_empty] lib) \<and>
   (fs filename = None \<or> fs filename = Some Zero_length \<longrightarrow>
      (\<exists>notice. load_from_file filename fs Library_init =
         Returns [notice] \<lparr>books = [], next_id = 1\<rparr>))"
  by (auto simp: load_from_file_absent load_from_file_zero_length Library_init_def)

theorem load_absent_or_empty_keeps_state_witness:
  "Map.empty ''library.json'' = (None :: file_content option) \<and>
   load_from_file ''library.json'' Map.empty Library_init =
     Returns [File_not_found] Library_init \<and>
   (Map.empty(''library.json'' \<mapsto> Zero_length)) ''library.json'' = Some Zero_length \<and>
   load_from_file ''library.json'' (Map.empty(''library.json'' \<mapsto> Zero_length)) Library_init =
     Returns [Library_empty] Library_init"
  using load_absent_or_empty_keeps_state [of Map.empty "''library.json''" Library_init]
    load_absent_or_empty_keeps_state
      [of "Map.empty(''library.json'' \<mapsto> Zero_length)" "''library.json''" Library_init]
  by simp

text \<open>
  C4 as it is worded asks for an empty library with \<open>next_id = 1\<close> after the call, from
  every state. From the library \<open>shelf\<close> of three books, with no file at the path and
  with a file of size 0, the call returns the three books and \<open>next_id = 5\<close>.
\<close>

theorem load_absent_or_empty_counterexample:
  "load_from_file ''library.json'' Map.empty shelf = Returns [File_not_found] shelf \<and>
   load_from_file ''library.json'' (Map.empty(''library.json'' \<mapsto> Zero_length)) shelf =
     Returns [Library_empty] shelf \<and>
   length (books shelf) = 3 \<and> next_id shelf = 5"
  by (simp add: load_from_file_absent load_from_file_zero_length shelf_def)


text \<open>
  C6. In a library whose ids are pairwise distinct: when a book has the id,
  \<open>remove_book\<close> takes out that one book, keeps the others in their order, leaves
  \<open>next_id\<close> as it was and prints nothing; when no book has the id, it prints the
  not-found error and leaves the library as it was. The method returns in both cases, so
  a second \<open>remove_book\<close> with the same id prints the not-found error and changes
  nothing.
\<close>

theorem remove_book_distinct_ids:
  assumes "distinct (map book_id (books lib))"
  shows "((\<exists>book \<in> set (books lib). book_id book = bid) \<longrightarrow>
            (\<exists>pre book suf. books lib = pre @ book # suf \<and> book_id book = bid \<and>
               remove_book bid lib = (lib\<lparr>books := pre @ suf\<rparr>, []))) \<and>
         ((\<forall>book \<in> set (books lib). book_id book \<noteq> bid) \<longrightarrow>
            remove_book bid lib = (lib, [Remove_error ValueError])) \<and>
         remove_book bid (fst (remove_book bid lib)) = (fst (remove_book bid lib), [Remove_error ValueError])"
proof (intro conjI impI)
  assume found: "\<exists>book \<in> set (books lib). book_id book = bid"
  then obtain book where "book \<in> set (books lib)" "book_id book = bid"
    by blast
  then obtain pre suf where split: "books lib = pre @ book # suf"
    by (auto simp: in_set_conv_decomp)
  with assms \<open>book_id book = bid\<close>
  have "filter (\<lambda>b. book_id b \<noteq> bid) (books lib) = pre @ suf"
    using filter_distinct_id [of pre book suf] by simp
  with found have "remove_book bid lib = (lib\<lparr>books := pre @ suf\<rparr>, [])"
    by (simp add: remove_book_found)
  with split \<open>book_id book = bid\<close>
  show "\<exists>pre book suf. books lib = pre @ book # suf \<and> book_id book = bid \<and>
          remove_book bid lib = (lib\<lparr>books := pre @ suf\<rparr>, [])"
    by blast
next
  assume "\<forall>book \<in> set (books lib). book_id book \<noteq> bid"
  then show "remove_book bid lib = (lib, [Remove_error ValueError])"
    by (rule remove_book_missing)
next
  show "remove_book bid (fst (remove_book bid lib)) = (fst (remove_book bid lib), [Remove_error ValueError])"
    by (rule remove_book_twice)
qed

theorem remove_book_distinct_ids_witness:
  "distinct (map book_id (books shelf)) \<and>
   (\<exists>pre book suf. books shelf = pre @ book # suf \<and> book_id book = 3 \<and>
      remove_book 3 shelf = (shelf\<lparr>books := pre @ suf\<rparr>, [])) \<and>
   remove_book 2 shelf = (shelf, [Remove_error ValueError]) \<and>
   remove_book 3 (fst (remove_book 3 shelf)) = (fst (remove_book 3 shelf), [Remove_error ValueError])"
proof -
  have ids: "distinct (map book_id (books shelf))"
    by (simp add: shelf_def)
  have here: "\<exists>book \<in> set (books shelf). book_id book = 3"
    by (simp add: shelf_def)
  have away: "\<forall>book \<in> set (books shelf). book_id book \<noteq> 2"
    by (simp add: shelf_def)
  from ids here away remove_book_distinct_ids [OF ids, of 3] remove_book_distinct_ids [OF ids, of 2]
  show ?thesis
    by blast
qed

text \<open>
  C7. When some book has the id, \<open>change_status\<close> writes the new status into the first
  book of the list with that id and stops: the books before it do not have the id, that
  book keeps its id, title, author and year, every other book and the order of the list
  stay as they were, \<open>next_id\<close> is unchanged and nothing is printed.
\<close>

theorem change_status_first_match:
  assumes "\<exists>book \<in> set (books lib). book_id book = bid"
  shows "\<exists>pre book suf. books lib = pre @ book # suf \<and> book_id book = bid \<and>
           (\<forall>other \<in> set pre. book_id other \<noteq> bid) \<and>
           change_status bid new_status lib =
             (lib\<lparr>books := pre @ book\<lparr>status := new_status\<rparr> # suf\<rparr>, [])"
proof -
  from change_status_loop_found [OF assms, of new_status] obtain pre book suf where
    "books lib = pre @ book # suf" "book_id book = bid"
    "\<forall>other \<in> set pre. book_id other \<noteq> bid"
    "change_status_loop bid new_status (books lib) =
       Some (pre @ book\<lparr>status := new_status\<rparr> # suf)"
    by blast
  then have "books lib = pre @ book # suf \<and> book_id book = bid \<and>
           (\<forall>other \<in> set pre. book_id other \<noteq> bid) \<and>
           change_status bid new_status lib =
             (lib\<lparr>books := pre @ book\<lparr>status := new_status\<rparr> # suf\<rparr>, [])"
    by (simp add: change_status_def change_status_try_def)
  then show ?thesis by blast
qed

theorem change_status_first_match_witness:
  "(\<exists>book \<in> set (books twins). book_id book = 7) \<and>
   (\<exists>pre book suf. books twins = pre @ book # suf \<and> book_id book = 7 \<and>
      (\<forall>other \<in> set pre. book_id other \<noteq> 7) \<and>
      change_status 7 ''gone'' twins =
        (twins\<lparr>books := pre @ book\<lparr>status := ''gone''\<rparr> # suf\<rparr>, []))"
proof -
  have here: "\<exists>book \<in> set (books twins). book_id book = 7"
    by (simp add: twins_def twin1_def)
  from here change_status_first_match [OF here, of "''gone''"] show ?thesis
    by blast
qed

text \<open>
  C8. The scenario, from a fresh library, on any file system and path: the two
  \<open>add_book\<close> calls give the ids 1 and 2; after \<open>remove_book 1\<close>, searching for
  \<open>B\<close> finds the book with id 2 and title \<open>B\<close> and no other; \<open>change_status\<close> sets
  that book's status to \<open>issued\<close>; saving and loading into a new library gives one book,
  with id 2 and status \<open>issued\<close>, and \<open>next_id = 3\<close>. Neither \<open>remove_book\<close> nor
  \<open>change_status\<close> prints an error.
\<close>

theorem end_to_end_scenario:
  "(let l1 = add_book ''A'' ''X'' 2000 Library_init;
        l2 = add_book ''B'' ''Y'' 2001 l1;
        (l3, printed3) = remove_book 1 l2;
        found = search_books ''B'' l3;
        (l4, printed4) = change_status 2 ''issued'' l3;
        loaded = load_from_file filename (save_to_file filename l4 fs) Library_init
    in map book_id (books l1) = [1] \<and>
       map book_id (books l2) = [1, 2] \<and>
       printed3 = [] \<and>
       found = [\<lparr>book_id = 2, title = ''B'', author = ''Y'', year = 2001,
                 status = default_status\<rparr>] \<and>
       printed4 = [] \<and>
       books l4 = [\<lparr>book_id = 2, title = ''B'', author = ''Y'', year = 2001,
                    status = ''issued''\<rparr>] \<and>
       loaded = Returns [] \<lparr>books = [\<lparr>book_id = 2, title = ''B'', author = ''Y'',
                                           year = 2001, status = ''issued''\<rparr>],
                               next_id = 3\<rparr>)"
proof -
  define l2 where "l2 = add_book ''B'' ''Y'' 2001 (add_book ''A'' ''X'' 2000 Library_init)"
  define l4 :: Library where
    "l4 = \<lparr>books = [\<lparr>book_id = 2, title = ''B'', author = ''Y'', year = 2001,
                        status = ''issued''\<rparr>], next_id = 3\<rparr>"
  have two: "l2 = \<lparr>books =
      [\<lparr>book_id = 1, title = ''A'', author = ''X'', year = 2000, status = default_status\<rparr>,
       \<lparr>book_id = 2, title = ''B'', author = ''Y'', year = 2001, status = default_status\<rparr>],
      next_id = 3\<rparr>"
    by (simp add: l2_def add_book_def Library_init_def)
  have removed: "remove_book 1 l2 =
      (\<lparr>books = [\<lparr>book_id = 2, title = ''B'', author = ''Y'', year = 2001,
                      status = default_status\<rparr>], next_id = 3\<rparr>, [])"
    by (simp add: two remove_book_def remove_book_try_def)
  have found: "search_books ''B'' (fst (remove_book 1 l2)) =
      [\<lparr>book_id = 2, title = ''B'', author = ''Y'', year = 2001, status = default_status\<rparr>]"
    by (simp add: removed search_books_def)
  have changed: "change_status 2 ''issued'' (fst (remove_book 1 l2)) = (l4, [])"
    by (simp add: removed change_status_def change_status_try_def l4_def)
  have "(save_to_file filename l4 fs) filename = Some (Json_text (JArray (map to_dict (books l4))))"
    by (simp add: save_to_file_def)
  from load_written [of "save_to_file filename l4 fs" filename "books l4" Library_init, OF this]
  have loaded: "load_from_file filename (save_to_file filename l4 fs) Library_init = Returns [] l4"
    by (simp add: l4_def)
  have one: "map book_id (books (add_book ''A'' ''X'' 2000 Library_init)) = [1]"
    by (simp add: add_book_def Library_init_def)
  from one two removed found changed loaded show ?thesis
    unfolding Let_def l2_def [symmetric]
    by (simp add: l4_def)
qed

text \<open>
  C9, as the code has it. The file holds a JSON array, and one of its objects lacks one
  of the keys \<open>book_id\<close>, \<open>title\<close>, \<open>author\<close>, \<open>year\<close>. Then an exception leaves
  \<open>load_from_file\<close>, and the list of books and \<open>next_id\<close> are what they were before
  the call, whatever the library held. The exception is the \<open>KeyError\<close> of one of the
  four keys when every element of the array is an object; when some element is not an
  object it is that \<open>KeyError\<close> or a \<open>TypeError\<close>.
\<close>

theorem load_missing_key_raises:
  assumes "fs filename = Some (Json_text (JArray items))"
    and "JObject kvs \<in> set items"
    and "k \<in> {''book_id'', ''title'', ''author'', ''year''}"
    and "map_of kvs k = None"
  shows "\<exists>e. load_from_file filename fs lib = Raises e lib \<and>
           (e = TypeError \<or> e \<in> KeyError ` {''book_id'', ''title'', ''author'', ''year''}) \<and>
           ((\<forall>item \<in> set items. \<exists>kvs'. item = JObject kvs') \<longrightarrow>
              e \<in> KeyError ` {''book_id'', ''title'', ''author'', ''year''})"
proof -
  from comprehension_incomplete [OF assms(2,3,4)] obtain e where e: "comprehension items = Inl e"
    by blast
  with assms(1) have raised: "load_from_file filename fs lib = Raises e lib"
    by (simp add: load_from_file_array)
  from comprehension_error [OF e]
  have kind: "e = TypeError \<or> e \<in> KeyError ` {''book_id'', ''title'', ''author'', ''year''}" .
  have "e \<in> KeyError ` {''book_id'', ''title'', ''author'', ''year''}"
    if "\<forall>item \<in> set items. \<exists>kvs'. item = JObject kvs'"
    using comprehension_objects [OF that e] by blast
  with raised kind show ?thesis by blast
qed

theorem load_missing_key_raises_witness:
  "(Map.empty(''library.json'' \<mapsto> Json_text (JArray incomplete_items))) ''library.json'' =
     Some (Json_text (JArray incomplete_items)) \<and>
   JObject [(''book_id'', JInt 2), (''title'', JString ''Emma'')] \<in> set incomplete_items \<and>
   map_of [(''book_id'', JInt 2), (''title'', JString ''Emma'')] ''author'' = None \<and>
   (\<exists>k'. load_from_file ''library.json''
          (Map.empty(''library.json'' \<mapsto> Json_text (JArray incomplete_items))) shelf =
        Raises (KeyError k') shelf)"
proof -
  let ?fs = "Map.empty(''library.json'' \<mapsto> Json_text (JArray incomplete_items))"
  let ?kvs = "[(''book_id'', JInt 2), (''title'', JString ''Emma'')]"
  have held: "?fs ''library.json'' = Some (Json_text (JArray incomplete_items))"
    by simp
  have item: "JObject ?kvs \<in> set incomplete_items"
    by (simp add: incomplete_items_def)
  have key: "''author'' \<in> {''book_id'', ''title'', ''author'', ''year''}"
    by simp
  have lacks: "map_of ?kvs ''author'' = None"
    by simp
  have objects: "\<forall>item \<in> set incomplete_items. \<exists>kvs'. item = JObject kvs'"
    by (simp add: incomplete_items_def)
  from load_missing_key_raises [of ?fs "''library.json''" incomplete_items ?kvs "''author''" shelf,
      OF held item key lacks] objects
  have "\<exists>k'. load_from_file ''library.json'' ?fs shelf = Raises (KeyError k') shelf"
    by blast
  with held item lacks show ?thesis
    by blast
qed

text \<open>
  C9 as it is worded promises a missing-key error. In the array \<open>[5, {}]\<close> the object
  lacks every key, but the comprehension reaches the number first, and subscripting a
  number raises \<open>TypeError\<close>.
\<close>

theorem load_missing_key_counterexample:
  "load_from_file ''library.json''
     (Map.empty(''library.json'' \<mapsto> Json_text (JArray [JInt 5, JObject []]))) shelf =
   Raises TypeError shelf"
  by (simp add: load_from_file_array book_args_def)

text \<open>
  C10. \<open>remove_book\<close> keeps the books whose id differs from the given one, so it takes
  out every book with that id: the list gets shorter by the number of times the id occurs.
  \<open>load_from_file\<close> does not look for repeated ids: from a file whose array holds two
  books under one id it loads both, and one \<open>remove_book\<close> with that id then removes
  both. That every id of the library is removed with exactly one book is the same as the
  ids being pairwise distinct.
\<close>

theorem remove_book_every_match:
  "((\<exists>book \<in> set (books lib). book_id book = bid) \<longrightarrow>
      remove_book bid lib =
        (lib\<lparr>books := filter (\<lambda>book. book_id book \<noteq> bid) (books lib)\<rparr>, []) \<and>
      length (books (fst (remove_book bid lib))) + count_list (map book_id (books lib)) bid =
        length (books lib)) \<and>
   (fs filename = Some (Json_text (JArray [to_dict b1, to_dict b2])) \<and> book_id b1 = book_id b2 \<longrightarrow>
      (\<exists>loaded. load_from_file filename fs lib0 = Returns [] loaded \<and>
         books loaded = [b1, b2] \<and>
         remove_book (book_id b1) loaded = (loaded\<lparr>books := []\<rparr>, []))) \<and>
   (distinct (map book_id (books lib)) \<longleftrightarrow>
      (\<forall>book \<in> set (books lib).
         length (books (fst (remove_book (book_id book) lib))) + 1 = length (books lib)))"
proof (intro conjI impI)
  assume found: "\<exists>book \<in> set (books lib). book_id book = bid"
  then show "remove_book bid lib =
      (lib\<lparr>books := filter (\<lambda>book. book_id book \<noteq> bid) (books lib)\<rparr>, [])"
    by (rule remove_book_found)
  from found show "length (books (fst (remove_book bid lib))) +
      count_list (map book_id (books lib)) bid = length (books lib)"
    by (simp add: remove_book_found removed_count)
next
  assume held: "fs filename = Some (Json_text (JArray [to_dict b1, to_dict b2])) \<and>
    book_id b1 = book_id b2"
  then have "fs filename = Some (Json_text (JArray (map to_dict [b1, b2])))"
    by simp
  from load_written [of fs filename "[b1, b2]" lib0, OF this] obtain loaded where
    loaded: "load_from_file filename fs lib0 = Returns [] loaded" "books loaded = [b1, b2]"
    by simp
  with held have "remove_book (book_id b1) loaded = (loaded\<lparr>books := []\<rparr>, [])"
    by (simp add: remove_book_def remove_book_try_def)
  with loaded show "\<exists>loaded. load_from_file filename fs lib0 = Returns [] loaded \<and>
      books loaded = [b1, b2] \<and>
      remove_book (book_id b1) loaded = (loaded\<lparr>books := []\<rparr>, [])"
    by blast
next
  have shorter: "length (books (fst (remove_book (book_id book) lib))) + 1 = length (books lib) \<longleftrightarrow>
      count_list (map book_id (books lib)) (book_id book) = 1"
    if "book \<in> set (books lib)" for book
  proof -
    from that have "\<exists>b \<in> set (books lib). book_id b = book_id book"
      by blast
    then have "length (books (fst (remove_book (book_id book) lib))) +
        count_list (map book_id (books lib)) (book_id book) = length (books lib)"
      by (simp add: remove_book_found removed_count)
    then show ?thesis by linarith
  qed
  show "distinct (map book_id (books lib)) \<longleftrightarrow>
      (\<forall>book \<in> set (books lib).
         length (books (fst (remove_book (book_id book) lib))) + 1 = length (books lib))"
  proof
    assume "distinct (map book_id (books lib))"
    then have "\<forall>book \<in> set (books lib). count_list (map book_id (books lib)) (book_id book) = 1"
      by (simp add: count_list_distinct)
    with shorter show "\<forall>book \<in> set (books lib).
        length (books (fst (remove_book (book_id book) lib))) + 1 = length (books lib)"
      by blast
  next
    assume "\<forall>book \<in> set (books lib).
        length (books (fst (remove_book (book_id book) lib))) + 1 = length (books lib)"
    with shorter
    have "\<forall>book \<in> set (books lib). count_list (map book_id (books lib)) (book_id book) = 1"
      by blast
    then have "\<forall>x \<in> set (map book_id (books lib)). count_list (map book_id (books lib)) x = 1"
      by auto
    then show "distinct (map book_id (books lib))"
      by (rule distinct_count_list)
  qed
qed

theorem remove_book_every_match_witness:
  "(\<exists>book \<in> set (books shelf). book_id book = 3) \<and>
   distinct (map book_id (books shelf)) \<and>
   remove_book 3 shelf =
     (shelf\<lparr>books := filter (\<lambda>book. book_id book \<noteq> 3) (books shelf)\<rparr>, []) \<and>
   length (books (fst (remove_book 3 shelf))) + count_list (map book_id (books shelf)) 3 =
     length (books shelf) \<and>
   book_id twin1 = book_id twin2 \<and>
   (\<exists>loaded.
      load_from_file ''library.json''
        (Map.empty(''library.json'' \<mapsto> Json_text (JArray [to_dict twin1, to_dict twin2])))
        Library_init = Returns [] loaded \<and>
      books loaded = [twin1, twin2] \<and>
      remove_book (book_id twin1) loaded = (loaded\<lparr>books := []\<rparr>, []))"
proof -
  let ?fs = "Map.empty(''library.json'' \<mapsto> Json_text (JArray [to_dict twin1, to_dict twin2]))"
  have here: "\<exists>book \<in> set (books shelf). book_id book = 3"
    by (simp add: shelf_def)
  have ids: "distinct (map book_id (books shelf))"
    by (simp add: shelf_def)
  have held: "?fs ''library.json'' = Some (Json_text (JArray [to_dict twin1, to_dict twin2]))"
    by simp
  have same: "book_id twin1 = book_id twin2"
    by (simp add: twin1_def twin2_def)
  from here ids held same
    remove_book_every_match [of shelf 3 ?fs "''library.json''" twin1 twin2 Library_init]
  show ?thesis
    by blast
qed

end
